theory Spec2Isabelle
  imports
    Main
    "HOL-Library.Word"
    "HOL-Library.AList"
    "HOL-Library.Char_ord"
    "HOL-Library.List_Lexorder"
begin

section \<open>The in-memory backend of restic (backend/mem/mem_backend.go)\<close>

subsection \<open>Data model\<close>

text \<open>
  A blob is a Go \<^verbatim>\<open>[]byte\<close>. A name is a Go \<^verbatim>\<open>string\<close>, that is a sequence of
  bytes; \<^typ>\<open>string\<close> is a list of 8-bit characters, and the order on it (lexicographic,
  characters compared by their code, a proper prefix first) is the order that
  \<^verbatim>\<open>sort.Strings\<close> uses.
\<close>

type_synonym byte = "8 word"

text \<open>
  Modelled from the spec: the category type \<^verbatim>\<open>backend.Type\<close> and its constant
  \<^verbatim>\<open>backend.Config\<close> are declared outside the source file. The spec describes a small
  closed set of blob kinds, one of which (the config category) is a single slot. Nothing
  below depends on which other categories there are.
\<close>

datatype Type = Config | Data | Key | Lock | Snapshot | Index

text \<open>
  \<^verbatim>\<open>backend.Handle\<close> is declared outside the source file as well; the code reads its
  fields \<^verbatim>\<open>Type\<close> and \<^verbatim>\<open>Name\<close> and calls its validation \<^verbatim>\<open>h.Valid()\<close>.
\<close>

record Handle =
  Type :: Type
  Name :: string

text \<open>
  \<^verbatim>\<open>type entry struct { Type backend.Type; Name string }\<close>: the key of the map.
  The code only ever builds it positionally, \<^verbatim>\<open>entry{t, name}\<close>, which is the pair.
\<close>

type_synonym entry = "Type \<times> string"

text \<open>
  \<^verbatim>\<open>type memMap map[entry][]byte\<close>. The map is kept as an association list whose keys
  are distinct (\<open>wf_memMap\<close>): \<open>map_of\<close> is the lookup \<^verbatim>\<open>be.data[k]\<close>,
  \<open>AList.update\<close> the assignment \<^verbatim>\<open>be.data[k] = v\<close>, \<open>AList.delete\<close> is
  \<^verbatim>\<open>delete(be.data, k)\<close>, and the order of the list stands for the order in which
  \<^verbatim>\<open>range be.data\<close> visits the keys, which Go leaves unspecified.
\<close>

type_synonym memMap = "(entry \<times> byte list) list"

definition wf_memMap :: "memMap \<Rightarrow> bool" where
  "wf_memMap m = distinct (map fst m)"

text \<open>
  \<^verbatim>\<open>MemoryBackend\<close>: the map. The mutex serialises the operations; each operation below
  is one critical section, run from the state before to the state after.
\<close>

record MemoryBackend =
  data :: memMap

text \<open>
  The errors of the file, named by their kind:
  \<^item> \<open>AlreadyExists\<close> is \<^verbatim>\<open>errors.New("already present")\<close>,
  \<^item> \<open>NotFound\<close> is \<^verbatim>\<open>errors.New("no such data")\<close>,
  \<^item> \<open>OffsetOutOfRange\<close> is \<^verbatim>\<open>errors.New("offset beyond end of file")\<close>,
  \<^item> \<open>UnexpectedShort\<close> is \<^verbatim>\<open>io.ErrUnexpectedEOF\<close>,
  \<^item> \<open>InvalidHandle\<close> is whatever error \<^verbatim>\<open>h.Valid()\<close> returns.
  A Go \<^verbatim>\<open>error\<close> result is an optional error, \<open>None\<close> for \<^verbatim>\<open>nil\<close>.
\<close>

datatype error = AlreadyExists | NotFound | OffsetOutOfRange | UnexpectedShort | InvalidHandle

text \<open>A run-time panic of Go: slicing \<^verbatim>\<open>buf[off:]\<close> with a negative \<^verbatim>\<open>off\<close>.\<close>

datatype panic = SliceBoundsOutOfRange

text \<open>
  The validation \<^verbatim>\<open>h.Valid()\<close> is a parameter of the two operations that call it.
  \<open>Valid_named\<close> is one validation, used to run them on concrete handles: outside the
  config category a handle must carry a name.
\<close>

type_synonym validation = "Handle \<Rightarrow> error option"

definition Valid_named :: validation where
  "Valid_named h = (if Type h \<noteq> Config \<and> Name h = [] then Some InvalidHandle else None)"

subsection \<open>Construction and the map operations\<close>

definition New :: MemoryBackend where
  "New = \<lparr>data = []\<rparr>"

text \<open>\<^verbatim>\<open>be.MockBackend.DeleteFn\<close>: replaces the map by a fresh one and returns \<^verbatim>\<open>nil\<close>.\<close>

definition DeleteFn :: "MemoryBackend \<Rightarrow> error option \<times> MemoryBackend" where
  "DeleteFn be = (None, be\<lparr>data := []\<rparr>)"

text \<open>\<^verbatim>\<open>func (be *MemoryBackend) insert(t, name, data) error\<close>\<close>

definition insert_mem ::
  "MemoryBackend \<Rightarrow> Type \<Rightarrow> string \<Rightarrow> byte list \<Rightarrow> error option \<times> MemoryBackend" where
  "insert_mem be t name d =
     (case map_of (data be) (t, name) of
        Some _ \<Rightarrow> (Some AlreadyExists, be)
      | None \<Rightarrow> (None, be\<lparr>data := AList.update (t, name) d (data be)\<rparr>))"

text \<open>\<^verbatim>\<open>func memTest(be, t, name) (bool, error)\<close>: the name is looked up as given.\<close>

definition memTest :: "MemoryBackend \<Rightarrow> Type \<Rightarrow> string \<Rightarrow> bool \<times> error option" where
  "memTest be t name =
     (case map_of (data be) (t, name) of
        Some _ \<Rightarrow> (True, None)
      | None \<Rightarrow> (False, None))"

subsection \<open>The write buffer\<close>

text \<open>
  \<^verbatim>\<open>tempMemEntry\<close> holds the bytes written so far (\<^verbatim>\<open>data bytes.Buffer\<close>); its
  pointer \<^verbatim>\<open>be\<close> to the backend is the store passed to \<open>Finalize\<close>.
\<close>

record tempMemEntry =
  buffer :: "byte list"

definition memCreate :: "MemoryBackend \<Rightarrow> tempMemEntry \<times> error option" where
  "memCreate be = (\<lparr>buffer = []\<rparr>, None)"

definition Write :: "tempMemEntry \<Rightarrow> byte list \<Rightarrow> (nat \<times> error option) \<times> tempMemEntry" where
  "Write e p = ((length p, None), e\<lparr>buffer := buffer e @ p\<rparr>)"

definition Size :: "tempMemEntry \<Rightarrow> nat" where
  "Size e = length (buffer e)"

definition Finalize ::
  "tempMemEntry \<Rightarrow> MemoryBackend \<Rightarrow> Type \<Rightarrow> string \<Rightarrow> error option \<times> MemoryBackend" where
  "Finalize e be t name =
     (let name = (if t = Config then [] else name)
      in insert_mem be t name (buffer e))"

text \<open>
  The protocol of a writer, in one step: create a buffer, write the bytes to it, finalize
  it under the given category and name.
\<close>

definition save_blob ::
  "MemoryBackend \<Rightarrow> byte list \<Rightarrow> Type \<Rightarrow> string \<Rightarrow> error option \<times> MemoryBackend" where
  "save_blob be bytes t name = Finalize (snd (Write (fst (memCreate be)) bytes)) be t name"

text \<open>
  The key that \<open>Finalize\<close>, \<open>memGetReader\<close>, \<open>memLoad\<close> and \<open>memStat\<close> reach for a
  category and a name: the config category has the single slot of the empty name.
\<close>

definition slot :: "Type \<Rightarrow> string \<Rightarrow> entry" where
  "slot t name = (t, if t = Config then [] else name)"

subsection \<open>The read path\<close>

text \<open>
  \<^verbatim>\<open>func memGetReader(be, t, name, offset, length uint) (io.ReadCloser, error)\<close>.
  The reader is given by the bytes it yields. \<^verbatim>\<open>offset\<close> and \<^verbatim>\<open>length\<close> are
  unsigned and only compared and used as slice bounds, never computed with, so they are
  natural numbers here.
\<close>

definition memGetReader ::
  "MemoryBackend \<Rightarrow> Type \<Rightarrow> string \<Rightarrow> nat \<Rightarrow> nat \<Rightarrow> error + byte list" where
  "memGetReader be t name offset len =
     (let name = (if t = Config then [] else name)
      in case map_of (data be) (t, name) of
           None \<Rightarrow> Inl NotFound
         | Some buf \<Rightarrow>
             if offset > length buf then Inl OffsetOutOfRange
             else
               let buf = drop offset buf
               in if len > 0
                  then (let len = (if len > length buf then length buf else len)
                        in Inr (take len buf))
                  else Inr buf)"

text \<open>
  \<^verbatim>\<open>func memLoad(be, h, p []byte, off int64) (int, error)\<close>. The result holds the
  destination \<^verbatim>\<open>p\<close> after \<^verbatim>\<open>copy(p, buf)\<close>, the count and the error. \<^verbatim>\<open>off\<close> is
  signed: a negative one passes the comparison with the length and makes the slicing
  \<^verbatim>\<open>buf[off:]\<close> panic.
\<close>

definition memLoad ::
  "validation \<Rightarrow> MemoryBackend \<Rightarrow> Handle \<Rightarrow> byte list \<Rightarrow> int
     \<Rightarrow> panic + (byte list \<times> nat \<times> error option)" where
  "memLoad Valid be h p off =
     (case Valid h of
        Some err \<Rightarrow> Inr (p, 0, Some err)
      | None \<Rightarrow>
          let h = (if Type h = Config then h\<lparr>Name := []\<rparr> else h)
          in (case map_of (data be) (Type h, Name h) of
                None \<Rightarrow> Inr (p, 0, Some NotFound)
              | Some buf \<Rightarrow>
                  if off > int (length buf) then Inr (p, 0, Some OffsetOutOfRange)
                  else if off < 0 then Inl SliceBoundsOutOfRange
                  else
                    let buf = drop (nat off) buf;
                        n = min (length p) (length buf);
                        p' = take n buf @ drop n p
                    in if length p > length buf then Inr (p', n, Some UnexpectedShort)
                       else Inr (p', n, None)))"

text \<open>\<^verbatim>\<open>func memStat(be, h) (backend.BlobInfo, error)\<close>, the info given by its \<^verbatim>\<open>Size\<close>.\<close>

definition memStat :: "validation \<Rightarrow> MemoryBackend \<Rightarrow> Handle \<Rightarrow> error + int" where
  "memStat Valid be h =
     (case Valid h of
        Some err \<Rightarrow> Inl err
      | None \<Rightarrow>
          let h = (if Type h = Config then h\<lparr>Name := []\<rparr> else h)
          in (case map_of (data be) (Type h, Name h) of
                None \<Rightarrow> Inl NotFound
              | Some e \<Rightarrow> Inr (int (length e))))"

text \<open>\<^verbatim>\<open>func memRemove(be, t, name) error\<close>: the name is looked up as given.\<close>

definition memRemove ::
  "MemoryBackend \<Rightarrow> Type \<Rightarrow> string \<Rightarrow> error option \<times> MemoryBackend" where
  "memRemove be t name =
     (case map_of (data be) (t, name) of
        None \<Rightarrow> (Some NotFound, be)
      | Some _ \<Rightarrow> (None, be\<lparr>data := AList.delete (t, name) (data be)\<rparr>))"

subsection \<open>Enumeration\<close>

text \<open>
  \<^verbatim>\<open>func memList(be, t, done) <-chan string\<close>. Under the lock the names of category
  \<^verbatim>\<open>t\<close> are collected into the local slice \<^verbatim>\<open>ids\<close> and sorted; \<open>memList\<close> is that
  slice, which the goroutine then sends in order.
\<close>

definition memList :: "MemoryBackend \<Rightarrow> Type \<Rightarrow> string list" where
  "memList be t = sort (map snd (filter (\<lambda>entry. fst entry = t) (map fst (data be))))"

text \<open>
  The goroutine and its consumer. A \<open>listing\<close> is the goroutine's state: the part of
  \<^verbatim>\<open>ids\<close> not yet sent. While it runs, three things can happen, in any interleaving:
  the consumer receives the next name (\<open>Recv\<close>; on an exhausted, closed channel it
  receives nothing), the consumer closes \<^verbatim>\<open>done\<close> and the goroutine returns
  (\<open>Cancel\<close>), or some caller runs an operation on the store (\<open>Store\<close>), which takes
  the lock but not the slice.
\<close>

datatype store_op =
    OpFinalize "byte list" Type string
  | OpRemove Type string
  | OpDelete

fun store_step :: "store_op \<Rightarrow> MemoryBackend \<Rightarrow> MemoryBackend" where
  "store_step (OpFinalize bytes t name) be = snd (save_blob be bytes t name)"
| "store_step (OpRemove t name) be = snd (memRemove be t name)"
| "store_step OpDelete be = snd (DeleteFn be)"

datatype event = Recv | Cancel | Store store_op

type_synonym listing = "string list"

fun deliver :: "event list \<Rightarrow> MemoryBackend \<times> listing \<Rightarrow> string list" where
  "deliver [] (be, ids) = []"
| "deliver (Recv # evs) (be, []) = deliver evs (be, [])"
| "deliver (Recv # evs) (be, n # ids) = n # deliver evs (be, ids)"
| "deliver (Cancel # evs) (be, ids) = []"
| "deliver (Store op # evs) (be, ids) = deliver evs (store_step op be, ids)"

subsection \<open>The blobs in memory\<close>

text \<open>
  A Go \<^verbatim>\<open>[]byte\<close> is a window on a backing array, and the code shares such windows:
  \<^verbatim>\<open>insert\<close> puts the slice it is given into the map as it is
  (\<^verbatim>\<open>be.data[entry{t, name}] = data\<close>, no copy), and \<^verbatim>\<open>copy(p, buf)\<close> in
  \<^verbatim>\<open>memLoad\<close> writes into the backing array of the caller's \<^verbatim>\<open>p\<close>. Where that
  matters the store is taken with its memory: the backing arrays by address, and the map
  from keys to slices. A \<open>slice\<close> is the address \<open>arr\<close> of its array, the position
  \<open>pos\<close> of its first byte and its length \<open>cnt\<close>.
\<close>

record slice =
  arr :: nat
  pos :: nat
  cnt :: nat

type_synonym memory = "nat \<Rightarrow> byte list"

definition read_slice :: "memory \<Rightarrow> slice \<Rightarrow> byte list" where
  "read_slice m s = take (cnt s) (drop (pos s) (m (arr s)))"

text \<open>Storing bytes through a slice: they replace the bytes of the array from \<open>pos\<close> on.\<close>

definition write_slice :: "memory \<Rightarrow> slice \<Rightarrow> byte list \<Rightarrow> memory" where
  "write_slice m s vs =
     m(arr s := take (pos s) (m (arr s)) @ vs @ drop (pos s + length vs) (m (arr s)))"

text \<open>The memory in which no array holds a byte.\<close>

definition empty_memory :: memory where
  "empty_memory = (\<lambda>a. [])"

text \<open>Two slices that have no byte in common.\<close>

definition apart :: "slice \<Rightarrow> slice \<Rightarrow> bool" where
  "apart p s = (arr p \<noteq> arr s \<or> pos p + cnt p \<le> pos s \<or> pos s + cnt s \<le> pos p)"

record Machine =
  mem :: memory
  slices :: "(entry \<times> slice) list"

text \<open>The map as the operations above see it: each key with the bytes of its slice.\<close>

definition contents :: "Machine \<Rightarrow> MemoryBackend" where
  "contents st = \<lparr>data = map (\<lambda>(k, s). (k, read_slice (mem st) s)) (slices st)\<rparr>"

text \<open>\<^verbatim>\<open>insert\<close> and \<^verbatim>\<open>memRemove\<close> on the map of slices.\<close>

definition insert_slice ::
  "Machine \<Rightarrow> Type \<Rightarrow> string \<Rightarrow> slice \<Rightarrow> error option \<times> Machine" where
  "insert_slice st t name d =
     (case map_of (slices st) (t, name) of
        Some _ \<Rightarrow> (Some AlreadyExists, st)
      | None \<Rightarrow> (None, st\<lparr>slices := AList.update (t, name) d (slices st)\<rparr>))"

definition Remove_slice :: "Machine \<Rightarrow> Type \<Rightarrow> string \<Rightarrow> error option \<times> Machine" where
  "Remove_slice st t name =
     (case map_of (slices st) (t, name) of
        None \<Rightarrow> (Some NotFound, st)
      | Some _ \<Rightarrow> (None, st\<lparr>slices := AList.delete (t, name) (slices st)\<rparr>))"

text \<open>
  \<^verbatim>\<open>Finalize\<close>, given the slice \<^verbatim>\<open>e.data.Bytes()\<close> of the buffer's contents.
\<close>

definition Finalize_slice ::
  "slice \<Rightarrow> Machine \<Rightarrow> Type \<Rightarrow> string \<Rightarrow> error option \<times> Machine" where
  "Finalize_slice bytes st t name =
     (let name = (if t = Config then [] else name)
      in insert_slice st t name bytes)"

text \<open>
  \<^verbatim>\<open>memLoad\<close> with the destination \<^verbatim>\<open>p\<close> in memory: what it reads and returns is
  \<open>memLoad\<close> on the contents, and the destination after \<^verbatim>\<open>copy\<close> is stored through
  \<^verbatim>\<open>p\<close> (\<^verbatim>\<open>copy\<close> behaves as if it read all of its source before writing).
\<close>

definition Load_slice ::
  "validation \<Rightarrow> Machine \<Rightarrow> Handle \<Rightarrow> slice \<Rightarrow> int
     \<Rightarrow> (panic + (nat \<times> error option)) \<times> Machine" where
  "Load_slice Valid st h p off =
     (case memLoad Valid (contents st) h (read_slice (mem st) p) off of
        Inl pnc \<Rightarrow> (Inl pnc, st)
      | Inr (p', n, err) \<Rightarrow> (Inr (n, err), st\<lparr>mem := write_slice (mem st) p p'\<rparr>))"

subsection \<open>The operations as requests\<close>

text \<open>
  The backend is used through the function-valued fields that \<^verbatim>\<open>New\<close> wires up. A
  \<open>request\<close> is one call of a store operation with its arguments, \<open>perform\<close> runs it
  on the store in memory: the result is what the call returns and the machine after it.
  \<^verbatim>\<open>memGetReader\<close> and \<^verbatim>\<open>memStat\<close> have no assignment and no \<^verbatim>\<open>copy\<close>.
\<close>

datatype request =
    ReqInsert Type string slice
  | ReqFinalize slice Type string
  | ReqGetReader Type string nat nat
  | ReqLoad Handle slice int
  | ReqStat Handle
  | ReqRemove Type string

datatype response =
    Status "error option"
  | Reader "error + byte list"
  | Loaded "panic + (nat \<times> error option)"
  | Info "error + int"

fun perform :: "validation \<Rightarrow> request \<Rightarrow> Machine \<Rightarrow> response \<times> Machine" where
  "perform Valid (ReqInsert t name d) st =
     (Status (fst (insert_slice st t name d)), snd (insert_slice st t name d))"
| "perform Valid (ReqFinalize bytes t name) st =
     (Status (fst (Finalize_slice bytes st t name)), snd (Finalize_slice bytes st t name))"
| "perform Valid (ReqGetReader t name offset len) st =
     (Reader (memGetReader (contents st) t name offset len), st)"
| "perform Valid (ReqLoad h p off) st =
     (Loaded (fst (Load_slice Valid st h p off)), snd (Load_slice Valid st h p off))"
| "perform Valid (ReqStat h) st = (Info (memStat Valid (contents st) h), st)"
| "perform Valid (ReqRemove t name) st =
     (Status (fst (Remove_slice st t name)), snd (Remove_slice st t name))"

text \<open>The error a call returned, if any. A panic is not a returned error.\<close>

fun returned_error :: "response \<Rightarrow> error option" where
  "returned_error (Status r) = r"
| "returned_error (Reader (Inl err)) = Some err"
| "returned_error (Reader (Inr buf)) = None"
| "returned_error (Loaded (Inl pnc)) = None"
| "returned_error (Loaded (Inr (n, r))) = r"
| "returned_error (Info (Inl err)) = Some err"
| "returned_error (Info (Inr sz)) = None"

text \<open>
  A request whose destination, if it has one, has no byte in common with a stored blob.
\<close>

fun unshared :: "Machine \<Rightarrow> request \<Rightarrow> bool" where
  "unshared st (ReqLoad h p off) = list_all (\<lambda>(k, s). apart p s) (slices st)"
| "unshared st (ReqInsert t name d) = True"
| "unshared st (ReqFinalize bytes t name) = True"
| "unshared st (ReqGetReader t name offset len) = True"
| "unshared st (ReqStat h) = True"
| "unshared st (ReqRemove t name) = True"

text \<open>
  How many names a schedule lets the consumer ask for: its \<open>Recv\<close> events up to the
  first \<open>Cancel\<close>.
\<close>

fun received :: "event list \<Rightarrow> nat" where
  "received [] = 0"
| "received (Recv # evs) = Suc (received evs)"
| "received (Cancel # evs) = 0"
| "received (Store op # evs) = received evs"

section \<open>Basic facts about the operations\<close>

lemma buffer_after_Write: "buffer (snd (Write (fst (memCreate be)) bytes)) = bytes"
  by (simp add: Write_def memCreate_def)

lemma Finalize_insert_mem: "Finalize e be t name = insert_mem be (fst (slot t name)) (snd (slot t name)) (buffer e)"
  by (simp add: Finalize_def slot_def)

lemma insert_mem_present:
  "map_of (data be) (t, name) = Some old \<Longrightarrow> insert_mem be t name d = (Some AlreadyExists, be)"
  by (simp add: insert_mem_def)

lemma insert_mem_absent:
  "map_of (data be) (t, name) = None \<Longrightarrow>
   insert_mem be t name d = (None, be\<lparr>data := AList.update (t, name) d (data be)\<rparr>)"
  by (simp add: insert_mem_def)

lemma insert_mem_ok_lookup:
  "fst (insert_mem be t name d) = None \<Longrightarrow>
   map_of (data (snd (insert_mem be t name d))) = (map_of (data be))((t, name) \<mapsto> d)"
  by (auto simp: insert_mem_def update_conv' split: option.splits)

lemma insert_mem_failed_state:
  "fst (insert_mem be t name d) = Some err \<Longrightarrow> snd (insert_mem be t name d) = be \<and> err = AlreadyExists"
  by (auto simp: insert_mem_def split: option.splits)

lemma wf_New: "wf_memMap (data New)"
  by (simp add: New_def wf_memMap_def)

lemma wf_insert_mem: "wf_memMap (data be) \<Longrightarrow> wf_memMap (data (snd (insert_mem be t name d)))"
  by (auto simp: insert_mem_def wf_memMap_def distinct_update split: option.splits)

lemma wf_memRemove: "wf_memMap (data be) \<Longrightarrow> wf_memMap (data (snd (memRemove be t name)))"
  by (auto simp: memRemove_def wf_memMap_def distinct_delete split: option.splits)

lemma wf_DeleteFn: "wf_memMap (data (snd (DeleteFn be)))"
  by (simp add: DeleteFn_def wf_memMap_def)


lemma memGetReader_stored:
  "map_of (data be) (slot t name) = Some buf \<Longrightarrow>
   memGetReader be t name offset len =
     (if offset > length buf then Inl OffsetOutOfRange
      else if len = 0 \<or> len > length buf - offset then Inr (drop offset buf)
      else Inr (take len (drop offset buf)))"
  by (auto simp: memGetReader_def slot_def Let_def)

lemma memGetReader_absent:
  "map_of (data be) (slot t name) = None \<Longrightarrow> memGetReader be t name offset len = Inl NotFound"
  by (auto simp: memGetReader_def slot_def Let_def)

lemma memLoad_stored:
  "Valid h = None \<Longrightarrow> map_of (data be) (slot (Type h) (Name h)) = Some buf \<Longrightarrow>
   memLoad Valid be h p off =
     (if off > int (length buf) then Inr (p, 0, Some OffsetOutOfRange)
      else if off < 0 then Inl SliceBoundsOutOfRange
      else Inr (take (min (length p) (length buf - nat off)) (drop (nat off) buf)
                  @ drop (min (length p) (length buf - nat off)) p,
                min (length p) (length buf - nat off),
                if length p > length buf - nat off then Some UnexpectedShort else None))"
  by (auto simp: memLoad_def slot_def Let_def)

lemma memLoad_absent:
  "Valid h = None \<Longrightarrow> map_of (data be) (slot (Type h) (Name h)) = None \<Longrightarrow>
   memLoad Valid be h p off = Inr (p, 0, Some NotFound)"
  by (auto simp: memLoad_def slot_def Let_def)

lemma memLoad_invalid:
  "Valid h = Some err \<Longrightarrow> memLoad Valid be h p off = Inr (p, 0, Some err)"
  by (simp add: memLoad_def)

lemma memStat_stored:
  "Valid h = None \<Longrightarrow> map_of (data be) (slot (Type h) (Name h)) = Some buf \<Longrightarrow>
   memStat Valid be h = Inr (int (length buf))"
  by (auto simp: memStat_def slot_def Let_def)

lemma save_blob_insert_mem:
  "save_blob be bytes t name = insert_mem be (fst (slot t name)) (snd (slot t name)) bytes"
  by (simp add: save_blob_def Finalize_insert_mem buffer_after_Write)

lemma save_blob_ok_lookup:
  "fst (save_blob be bytes t name) = None \<Longrightarrow>
   map_of (data (snd (save_blob be bytes t name))) (slot t name) = Some bytes"
  using insert_mem_ok_lookup [of be "fst (slot t name)" "snd (slot t name)" bytes]
  by (simp add: save_blob_insert_mem)

lemma round_trip:
  assumes ok: "fst (save_blob be bytes t name) = None"
  shows "memGetReader (snd (save_blob be bytes t name)) t name 0 0 = Inr bytes
       \<and> (Valid \<lparr>Type = t, Name = name\<rparr> = None \<longrightarrow>
            memStat Valid (snd (save_blob be bytes t name)) \<lparr>Type = t, Name = name\<rparr>
              = Inr (int (length bytes)))
       \<and> (t \<noteq> Config \<or> name = [] \<longrightarrow>
            memTest (snd (save_blob be bytes t name)) t name = (True, None))"
proof -
  let ?be' = "snd (save_blob be bytes t name)"
  have stored: "map_of (data ?be') (slot t name) = Some bytes"
    using ok by (rule save_blob_ok_lookup)
  have r: "memGetReader ?be' t name 0 0 = Inr bytes"
    by (simp add: memGetReader_stored [OF stored])
  have s: "Valid \<lparr>Type = t, Name = name\<rparr> = None \<Longrightarrow>
      memStat Valid ?be' \<lparr>Type = t, Name = name\<rparr> = Inr (int (length bytes))"
    using stored by (simp add: memStat_stored)
  have e: "t \<noteq> Config \<or> name = [] \<Longrightarrow> memTest ?be' t name = (True, None)"
    using stored by (auto simp: memTest_def slot_def)
  from r s e show ?thesis by blast
qed


lemma set_memList: "set (memList be t) = {name. map_of (data be) (t, name) \<noteq> None}"
proof -
  have "set (memList be t) = {name. (t, name) \<in> fst ` set (data be)}"
    by (force simp: memList_def image_iff)
  then show ?thesis
    by (simp add: map_of_eq_None_iff)
qed

lemma distinct_names_of_category:
  "distinct ks \<Longrightarrow> distinct (map snd (filter (\<lambda>entry. fst entry = t) ks))"
  by (auto simp: distinct_map inj_on_def)

lemma strict_sorted_memList: "wf_memMap (data be) \<Longrightarrow> sorted_wrt (<) (memList be t)"
  by (simp add: memList_def wf_memMap_def strict_sorted_iff distinct_names_of_category)

lemma deliver_take: "deliver evs (be, ids) = take (received evs) ids"
proof (induction evs arbitrary: be ids)
  case Nil
  show ?case by simp
next
  case (Cons ev evs)
  show ?case
  proof (cases ev)
    case Recv
    then show ?thesis using Cons.IH by (cases ids) simp_all
  next
    case Cancel
    then show ?thesis by simp
  next
    case (Store op)
    then show ?thesis using Cons.IH by simp
  qed
qed

lemma received_skip_Store: "received (evs1 @ Store op # evs2) = received (evs1 @ evs2)"
  by (induction evs1 rule: received.induct) simp_all

lemma received_all_Recv: "received (replicate n Recv) = n"
  by (induction n) simp_all


lemma wf_store_step: "wf_memMap (data be) \<Longrightarrow> wf_memMap (data (store_step op be))"
  by (cases op) (simp_all add: save_blob_insert_mem wf_insert_mem wf_memRemove wf_DeleteFn)

lemma take_drop_own_length: "take c xs @ drop (length (take c xs)) xs = xs"
  by (cases "c \<le> length xs") (simp_all add: min_def)

lemma splice_same: "take q a @ take c (drop q a) @ drop (q + length (take c (drop q a))) a = a"
proof -
  have "drop (q + length (take c (drop q a))) a = drop (length (take c (drop q a))) (drop q a)"
    by (simp add: add.commute)
  then have "take c (drop q a) @ drop (q + length (take c (drop q a))) a = drop q a"
    using take_drop_own_length [of c "drop q a"] by simp
  then show ?thesis by simp
qed

lemma splice_before:
  assumes "length vs \<le> length a - q" and "lo + c \<le> q"
  shows "take c (drop lo (take q a @ vs @ drop (q + length vs) a)) = take c (drop lo a)"
proof (cases "q \<le> length a")
  case True
  then have l: "length (take q a) = q" by simp
  have "take c (drop lo (take q a @ vs @ drop (q + length vs) a)) = take c (drop lo (take q a))"
    using l assms(2) by simp
  also have "\<dots> = take c (take (q - lo) (drop lo a))"
    by (simp add: drop_take)
  also have "\<dots> = take c (drop lo a)"
    using assms(2) by simp
  finally show ?thesis .
next
  case False
  with assms show ?thesis by simp
qed

lemma splice_after:
  assumes "length vs \<le> length a - q" and "q + length vs \<le> lo"
  shows "take c (drop lo (take q a @ vs @ drop (q + length vs) a)) = take c (drop lo a)"
proof (cases "q \<le> length a")
  case True
  with assms show ?thesis by simp
next
  case False
  with assms show ?thesis by simp
qed

lemma read_slice_length_le: "length (read_slice m p) \<le> length (m (arr p)) - pos p"
  by (simp add: read_slice_def)

lemma read_slice_length_cnt: "length (read_slice m p) \<le> cnt p"
  by (simp add: read_slice_def)

lemma write_slice_same: "write_slice m p (read_slice m p) = m"
proof (rule ext)
  fix x
  show "write_slice m p (read_slice m p) x = m x"
    using splice_same [of "pos p" "m (arr p)" "cnt p"]
    by (simp add: write_slice_def read_slice_def)
qed

lemma read_after_write_apart:
  assumes len: "length vs = length (read_slice m p)"
    and ap: "apart p s"
  shows "read_slice (write_slice m p vs) s = read_slice m s"
proof (cases "arr p = arr s")
  case False
  then show ?thesis by (simp add: read_slice_def write_slice_def)
next
  case True
  have fits: "length vs \<le> length (m (arr p)) - pos p"
    using len read_slice_length_le [of m p] by simp
  have short: "length vs \<le> cnt p"
    using len read_slice_length_cnt [of m p] by simp
  from ap True have "pos p + cnt p \<le> pos s \<or> pos s + cnt s \<le> pos p"
    by (simp add: apart_def)
  then show ?thesis
  proof
    assume "pos p + cnt p \<le> pos s"
    with short have "pos p + length vs \<le> pos s" by simp
    from splice_after [OF fits this] True show ?thesis
      by (simp add: read_slice_def write_slice_def)
  next
    assume "pos s + cnt s \<le> pos p"
    from splice_before [OF fits this] True show ?thesis
      by (simp add: read_slice_def write_slice_def)
  qed
qed

lemma memLoad_destination_length:
  "memLoad Valid be h p off = Inr (p', n, err) \<Longrightarrow> length p' = length p"
  by (auto simp: memLoad_def Let_def split: option.splits if_splits)

lemma memLoad_error_destination:
  "memLoad Valid be h p off = Inr (p', n, Some err) \<Longrightarrow> err \<noteq> UnexpectedShort \<Longrightarrow> p' = p"
  by (auto simp: memLoad_def Let_def split: option.splits if_splits)

lemma contents_write_unshared:
  assumes len: "length vs = length (read_slice (mem st) p)"
    and un: "list_all (\<lambda>(k, s). apart p s) (slices st)"
  shows "contents (st\<lparr>mem := write_slice (mem st) p vs\<rparr>) = contents st"
proof -
  have "\<And>k s. (k, s) \<in> set (slices st) \<Longrightarrow>
      read_slice (write_slice (mem st) p vs) s = read_slice (mem st) s"
    using un read_after_write_apart [OF len] by (auto simp: list_all_iff)
  then show ?thesis
    by (auto simp: contents_def)
qed

lemma insert_slice_failed: "fst (insert_slice st t name d) = Some err \<Longrightarrow> snd (insert_slice st t name d) = st"
  by (auto simp: insert_slice_def split: option.splits)

lemma Remove_slice_failed: "fst (Remove_slice st t name) = Some err \<Longrightarrow> snd (Remove_slice st t name) = st"
  by (auto simp: Remove_slice_def split: option.splits)

lemma Load_slice_failed:
  assumes failed: "returned_error (Loaded (fst (Load_slice Valid st h p off))) = Some err"
    and un: "err = UnexpectedShort \<Longrightarrow> list_all (\<lambda>(k, s). apart p s) (slices st)"
  shows "contents (snd (Load_slice Valid st h p off)) = contents st"
proof (cases "memLoad Valid (contents st) h (read_slice (mem st) p) off")
  case (Inl pnc)
  then show ?thesis by (simp add: Load_slice_def)
next
  case (Inr r)
  obtain p' n e where r: "r = (p', n, e)" by (cases r)
  with Inr have run: "memLoad Valid (contents st) h (read_slice (mem st) p) off = Inr (p', n, e)"
    by simp
  with failed have e: "e = Some err" by (simp add: Load_slice_def)
  have after: "snd (Load_slice Valid st h p off) = st\<lparr>mem := write_slice (mem st) p p'\<rparr>"
    using run by (simp add: Load_slice_def)
  show ?thesis
  proof (cases "err = UnexpectedShort")
    case True
    have "length p' = length (read_slice (mem st) p)"
      using run by (rule memLoad_destination_length)
    from contents_write_unshared [OF this un [OF True]] after show ?thesis by simp
  next
    case False
    have "p' = read_slice (mem st) p"
      using run False unfolding e by (rule memLoad_error_destination)
    then show ?thesis using after by (simp add: write_slice_same)
  qed
qed


lemma update_map_values:
  "map (\<lambda>(k, s). (k, f s)) (AList.update k v xs) = AList.update k (f v) (map (\<lambda>(k, s). (k, f s)) xs)"
  by (induction xs) auto

lemma delete_map_values:
  "map (\<lambda>(k, s). (k, f s)) (AList.delete k xs) = AList.delete k (map (\<lambda>(k, s). (k, f s)) xs)"
  by (induction xs) auto

lemma map_of_contents:
  "map_of (data (contents st)) k = map_option (read_slice (mem st)) (map_of (slices st) k)"
  by (simp add: contents_def map_of_map)

text \<open>On the contents, the operations on slices are the operations on bytes.\<close>

lemma insert_slice_contents:
  "fst (insert_slice st t name d) = fst (insert_mem (contents st) t name (read_slice (mem st) d))
   \<and> contents (snd (insert_slice st t name d))
       = snd (insert_mem (contents st) t name (read_slice (mem st) d))"
  by (cases "map_of (slices st) (t, name)")
    (simp_all add: insert_slice_def insert_mem_def map_of_contents,
     simp_all add: contents_def update_map_values)

lemma Remove_slice_contents:
  "fst (Remove_slice st t name) = fst (memRemove (contents st) t name)
   \<and> contents (snd (Remove_slice st t name)) = snd (memRemove (contents st) t name)"
  by (cases "map_of (slices st) (t, name)")
    (simp_all add: Remove_slice_def memRemove_def map_of_contents,
     simp_all add: contents_def delete_map_values)

section \<open>The claims\<close>

subsection \<open>C1: the config name on every operation\<close>

text \<open>
  Claim C1 says that the rewrite of the name in the config category is applied on every
  operation: for all names \<open>n1\<close> and \<open>n2\<close>, after \<open>Finalize(Config, n1)\<close> the test
  \<open>TestExists(Config, n2)\<close> is true and \<open>Remove(Config, n2)\<close> succeeds. The code
  rewrites the name in \<open>Finalize\<close>, \<open>memGetReader\<close>, \<open>memLoad\<close> and \<open>memStat\<close>, but
  \<open>memTest\<close> and \<open>memRemove\<close> look the name up as it is given. On a fresh store, after a
  blob is finalized as \<open>(Config, "n1")\<close>, \<open>memTest(Config, "n2")\<close> returns false and
  \<open>memRemove(Config, "n2")\<close> fails with \<open>NotFound\<close>, while \<open>memGetReader(Config, "n2")\<close>
  reads the blob.
\<close>

theorem config_name_kept_by_Test_and_Remove:
  "fst (save_blob New [7] Config ''n1'') = None
   \<and> memTest (snd (save_blob New [7] Config ''n1'')) Config ''n2'' = (False, None)
   \<and> fst (memRemove (snd (save_blob New [7] Config ''n1'')) Config ''n2'') = Some NotFound
   \<and> memGetReader (snd (save_blob New [7] Config ''n1'')) Config ''n2'' 0 0 = Inr [7]"
  by (simp add: save_blob_def Finalize_def insert_mem_def Write_def memCreate_def New_def
      memTest_def memRemove_def memGetReader_def)

subsection \<open>C2: write, then read\<close>

text \<open>
  Claim C2 says that for every category, name and bytes, once the bytes are written to a
  buffer and finalized with success, \<open>TestExists\<close> is true, \<open>Stat\<close> returns the number
  of bytes and \<open>GetReader\<close> with offset 0 and length 0 yields the bytes. In the config
  category with a name that is not empty the code gives the size and the bytes, but
  \<open>memTest\<close> returns false, since it does not rewrite the name: here for the bytes
  \<open>[1, 2, 3]\<close> finalized as \<open>(Config, "cfg")\<close> on a fresh store. (For every other
  category, and for the empty name, lemma \<open>round_trip\<close> above proves the round trip.)
\<close>

theorem config_round_trip_Test_fails:
  "fst (save_blob New [1, 2, 3] Config ''cfg'') = None
   \<and> memTest (snd (save_blob New [1, 2, 3] Config ''cfg'')) Config ''cfg'' = (False, None)
   \<and> memStat Valid_named (snd (save_blob New [1, 2, 3] Config ''cfg''))
        \<lparr>Type = Config, Name = ''cfg''\<rparr> = Inr 3
   \<and> memGetReader (snd (save_blob New [1, 2, 3] Config ''cfg'')) Config ''cfg'' 0 0
        = Inr [1, 2, 3]"
  by (simp add: save_blob_def Finalize_def insert_mem_def Write_def memCreate_def New_def
      memTest_def memStat_def memGetReader_def Valid_named_def)

subsection \<open>C3: insert rejects a key that is present\<close>

text \<open>
  Claim C3: for every key that is present in the map, \<open>insert\<close> of that key fails with
  \<open>AlreadyExists\<close> and returns the store as it was; and after a first insert that
  succeeded, a second insert of the same key fails with \<open>AlreadyExists\<close>, leaves the
  store as the first insert made it, and the bytes stored under the key are still those of
  the first insert.
\<close>

theorem insert_mem_rejects_present_key:
  "(map_of (data be) (t, name) = Some old \<longrightarrow>
      insert_mem be t name d = (Some AlreadyExists, be))
   \<and> (fst (insert_mem be t name d1) = None \<longrightarrow>
      insert_mem (snd (insert_mem be t name d1)) t name d2
        = (Some AlreadyExists, snd (insert_mem be t name d1))
      \<and> map_of (data (snd (insert_mem (snd (insert_mem be t name d1)) t name d2))) (t, name)
        = Some d1)"
proof (intro conjI impI)
  assume "map_of (data be) (t, name) = Some old"
  then show "insert_mem be t name d = (Some AlreadyExists, be)"
    by (rule insert_mem_present)
next
  assume ok: "fst (insert_mem be t name d1) = None"
  let ?be1 = "snd (insert_mem be t name d1)"
  have stored: "map_of (data ?be1) (t, name) = Some d1"
    by (simp add: insert_mem_ok_lookup [OF ok])
  then show second: "insert_mem ?be1 t name d2 = (Some AlreadyExists, ?be1)"
    by (rule insert_mem_present)
  show "map_of (data (snd (insert_mem ?be1 t name d2))) (t, name) = Some d1"
    by (simp add: second stored)
qed

text \<open>Both cases at \<open>(Data, "a")\<close>: the key present from the start, and inserted twice.\<close>

theorem insert_mem_rejects_present_key_witness:
  "map_of (data \<lparr>data = [((Data, ''a''), [1, 2])]\<rparr>) (Data, ''a'') = Some [1, 2]
   \<and> insert_mem \<lparr>data = [((Data, ''a''), [1, 2])]\<rparr> Data ''a'' [9]
       = (Some AlreadyExists, \<lparr>data = [((Data, ''a''), [1, 2])]\<rparr>)
   \<and> fst (insert_mem New Data ''a'' [1, 2]) = None
   \<and> insert_mem (snd (insert_mem New Data ''a'' [1, 2])) Data ''a'' [9]
       = (Some AlreadyExists, snd (insert_mem New Data ''a'' [1, 2]))
   \<and> map_of (data (snd (insert_mem (snd (insert_mem New Data ''a'' [1, 2])) Data ''a'' [9])))
        (Data, ''a'') = Some [1, 2]"
proof -
  have h1: "map_of (data \<lparr>data = [((Data, ''a''), [1, 2 :: byte])]\<rparr>) (Data, ''a'') = Some [1, 2]"
    by simp
  have h2: "fst (insert_mem New Data ''a'' [1, 2]) = None"
    by (simp add: insert_mem_def New_def)
  show ?thesis
    using h1 h2
      insert_mem_rejects_present_key
        [of "\<lparr>data = [((Data, ''a''), [1, 2])]\<rparr>" Data "''a''" "[1, 2]" "[9]" "[1, 2]" "[9]"]
      insert_mem_rejects_present_key
        [of New Data "''a''" "[1, 2]" "[9]" "[1, 2]" "[9]"]
    by blast
qed

subsection \<open>C4: the offset at and beyond the end\<close>

text \<open>
  Claim C4, as the code has it: for every stored blob, \<open>GetReader\<close> with the offset equal
  to the stored length succeeds and yields no bytes, and \<open>Load\<close> (with a handle that
  passes validation) with that offset is not rejected for its offset: it copies 0 bytes,
  and it returns no error when the destination is empty and \<open>UnexpectedShort\<close> when it is
  not; with an offset greater than the stored length \<open>GetReader\<close> fails with
  \<open>OffsetOutOfRange\<close>, and so does \<open>Load\<close> with a handle that passes validation.
\<close>

theorem read_offset_boundary:
  assumes stored: "map_of (data be) (slot t name) = Some buf"
  shows "memGetReader be t name (length buf) len = Inr []
       \<and> (offset > length buf \<longrightarrow> memGetReader be t name offset len = Inl OffsetOutOfRange)
       \<and> (Valid \<lparr>Type = t, Name = name\<rparr> = None \<longrightarrow>
            memLoad Valid be \<lparr>Type = t, Name = name\<rparr> p (int (length buf))
              = Inr (p, 0, if p = [] then None else Some UnexpectedShort)
          \<and> (off > int (length buf) \<longrightarrow>
               memLoad Valid be \<lparr>Type = t, Name = name\<rparr> p off
                 = Inr (p, 0, Some OffsetOutOfRange)))"
proof -
  have r1: "memGetReader be t name (length buf) len = Inr []"
    by (simp add: memGetReader_stored [OF stored])
  have r2: "offset > length buf \<Longrightarrow> memGetReader be t name offset len = Inl OffsetOutOfRange"
    by (simp add: memGetReader_stored [OF stored])
  have l: "Valid \<lparr>Type = t, Name = name\<rparr> = None \<Longrightarrow>
      memLoad Valid be \<lparr>Type = t, Name = name\<rparr> p (int (length buf))
        = Inr (p, 0, if p = [] then None else Some UnexpectedShort)
      \<and> (off > int (length buf) \<longrightarrow>
           memLoad Valid be \<lparr>Type = t, Name = name\<rparr> p off
             = Inr (p, 0, Some OffsetOutOfRange))"
    using stored by (simp add: memLoad_stored)
  from r1 r2 l show ?thesis by blast
qed

text \<open>
  The claim as it was stated says that \<open>Load\<close> with the offset equal to the stored length
  succeeds. It does not when the destination has room: for the blob \<open>[1, 2, 3]\<close> stored as
  \<open>(Data, "a")\<close>, \<open>Load\<close> at offset 3 into a destination of one byte returns the count
  0 together with \<open>UnexpectedShort\<close>.
\<close>

theorem Load_at_end_signals_short:
  "map_of (data (snd (save_blob New [1, 2, 3] Data ''a''))) (Data, ''a'') = Some [1, 2, 3]
   \<and> memLoad Valid_named (snd (save_blob New [1, 2, 3] Data ''a''))
        \<lparr>Type = Data, Name = ''a''\<rparr> [0] 3 = Inr ([0], 0, Some UnexpectedShort)"
  by (simp add: save_blob_def Finalize_def insert_mem_def Write_def memCreate_def New_def
      memLoad_def Valid_named_def)

text \<open>The blob \<open>[1, 2, 3]\<close> read at the offsets 3 and 4.\<close>

theorem read_offset_boundary_witness:
  "map_of (data \<lparr>data = [((Data, ''a''), [1, 2, 3])]\<rparr>) (slot Data ''a'') = Some [1, 2, 3]
   \<and> memGetReader \<lparr>data = [((Data, ''a''), [1, 2, 3])]\<rparr> Data ''a'' 3 0 = Inr []
   \<and> memGetReader \<lparr>data = [((Data, ''a''), [1, 2, 3])]\<rparr> Data ''a'' 4 0 = Inl OffsetOutOfRange
   \<and> memLoad Valid_named \<lparr>data = [((Data, ''a''), [1, 2, 3])]\<rparr> \<lparr>Type = Data, Name = ''a''\<rparr> [] 3
       = Inr ([], 0, None)
   \<and> memLoad Valid_named \<lparr>data = [((Data, ''a''), [1, 2, 3])]\<rparr> \<lparr>Type = Data, Name = ''a''\<rparr> [] 4
       = Inr ([], 0, Some OffsetOutOfRange)"
proof -
  have h: "map_of (data \<lparr>data = [((Data, ''a''), [1, 2, 3 :: byte])]\<rparr>) (slot Data ''a'')
      = Some [1, 2, 3]"
    by (simp add: slot_def)
  have v: "Valid_named \<lparr>Type = Data, Name = ''a''\<rparr> = None"
    by (simp add: Valid_named_def)
  show ?thesis
    using h v read_offset_boundary [OF h, of 0 4 Valid_named "[]" 4]
    by (simp add: numeral_3_eq_3)
qed

subsection \<open>C5: the length of a read\<close>

text \<open>
  Claim C5: for every stored blob and every offset up to its length, \<open>GetReader\<close> with
  length zero returns all the bytes from the offset to the end, and with a length greater
  than the number of remaining bytes it returns exactly the remaining bytes, with no error.
  (A length that is not zero and fits returns that many bytes.)
\<close>

theorem GetReader_length_policy:
  assumes stored: "map_of (data be) (slot t name) = Some buf"
    and valid_offset: "offset \<le> length buf"
  shows "memGetReader be t name offset 0 = Inr (drop offset buf)
       \<and> (len > length buf - offset \<longrightarrow> memGetReader be t name offset len = Inr (drop offset buf))
       \<and> (0 < len \<and> len \<le> length buf - offset \<longrightarrow>
            memGetReader be t name offset len = Inr (take len (drop offset buf)))"
  using valid_offset by (simp add: memGetReader_stored [OF stored])

text \<open>The blob \<open>[1, 2, 3]\<close> read from offset 1 with the lengths 0 and 5.\<close>

theorem GetReader_length_policy_witness:
  "map_of (data \<lparr>data = [((Data, ''a''), [1, 2, 3])]\<rparr>) (slot Data ''a'') = Some [1, 2, 3]
   \<and> (1::nat) \<le> length [1, 2, 3 :: byte]
   \<and> memGetReader \<lparr>data = [((Data, ''a''), [1, 2, 3])]\<rparr> Data ''a'' 1 0 = Inr [2, 3]
   \<and> memGetReader \<lparr>data = [((Data, ''a''), [1, 2, 3])]\<rparr> Data ''a'' 1 5 = Inr [2, 3]"
proof -
  have h: "map_of (data \<lparr>data = [((Data, ''a''), [1, 2, 3 :: byte])]\<rparr>) (slot Data ''a'')
      = Some [1, 2, 3]"
    by (simp add: slot_def)
  have o: "(1::nat) \<le> length [1, 2, 3 :: byte]"
    by simp
  show ?thesis
    using h o GetReader_length_policy [OF h o, of 5]
    by simp
qed

subsection \<open>C6: the short read of Load\<close>

text \<open>
  Claim C6, as the code has it: for every stored blob whose handle passes validation, every
  offset from 0 up to its length and every destination, \<open>Load\<close> copies into the front
  of the destination the first \<open>min (length p) r\<close> of the \<open>r\<close> remaining bytes and
  returns that count; the error is \<open>UnexpectedShort\<close> exactly when the destination is
  longer than the remaining bytes, and then the count is \<open>r\<close>; otherwise there is no
  error and the count is the length of the destination.
\<close>

theorem Load_short_read:
  assumes valid: "Valid h = None"
    and stored: "map_of (data be) (slot (Type h) (Name h)) = Some buf"
    and valid_offset: "0 \<le> off" "off \<le> int (length buf)"
  shows "memLoad Valid be h p off
           = Inr (take (min (length p) (length buf - nat off)) (drop (nat off) buf)
                    @ drop (min (length p) (length buf - nat off)) p,
                  min (length p) (length buf - nat off),
                  if length p > length buf - nat off then Some UnexpectedShort else None)
       \<and> (length p > length buf - nat off \<longrightarrow>
            min (length p) (length buf - nat off) = length buf - nat off)
       \<and> (\<not> length p > length buf - nat off \<longrightarrow>
            min (length p) (length buf - nat off) = length p)"
  using valid stored valid_offset by (simp add: memLoad_stored)

text \<open>
  The claim as it was stated speaks of every stored blob. \<open>memLoad\<close> validates the handle
  before anything else: the blob \<open>[1, 2, 3]\<close> finalized as \<open>(Data, "")\<close> is stored and
  \<open>memGetReader\<close> reads it, but under a validation that wants a name \<open>memLoad\<close> from
  offset 0 into a destination of two bytes copies nothing and returns the count 0 with
  the error of the validation, where the claim has 2 bytes copied and no error.
\<close>

theorem Load_invalid_handle_copies_nothing:
  "map_of (data (snd (save_blob New [1, 2, 3] Data []))) (Data, []) = Some [1, 2, 3]
   \<and> memGetReader (snd (save_blob New [1, 2, 3] Data [])) Data [] 0 0 = Inr [1, 2, 3]
   \<and> memLoad Valid_named (snd (save_blob New [1, 2, 3] Data []))
        \<lparr>Type = Data, Name = []\<rparr> [0, 0] 0 = Inr ([0, 0], 0, Some InvalidHandle)"
  by (simp add: save_blob_def Finalize_def insert_mem_def Write_def memCreate_def New_def
      memGetReader_def memLoad_def Valid_named_def)

text \<open>The blob \<open>[1, 2, 3]\<close> loaded from offset 1 into a destination of four bytes.\<close>

theorem Load_short_read_witness:
  "Valid_named \<lparr>Type = Data, Name = ''a''\<rparr> = None
   \<and> map_of (data \<lparr>data = [((Data, ''a''), [1, 2, 3])]\<rparr>) (slot Data ''a'') = Some [1, 2, 3]
   \<and> (0::int) \<le> 1 \<and> (1::int) \<le> int (length [1, 2, 3 :: byte])
   \<and> memLoad Valid_named \<lparr>data = [((Data, ''a''), [1, 2, 3])]\<rparr> \<lparr>Type = Data, Name = ''a''\<rparr>
        [0, 0, 0, 0] 1 = Inr ([2, 3, 0, 0], 2, Some UnexpectedShort)"
proof -
  have v: "Valid_named \<lparr>Type = Data, Name = ''a''\<rparr> = None"
    by (simp add: Valid_named_def)
  have h: "map_of (data \<lparr>data = [((Data, ''a''), [1, 2, 3 :: byte])]\<rparr>)
      (slot (Type \<lparr>Type = Data, Name = ''a''\<rparr>) (Name \<lparr>Type = Data, Name = ''a''\<rparr>)) = Some [1, 2, 3]"
    by (simp add: slot_def)
  have o1: "(0::int) \<le> 1" by simp
  have o2: "(1::int) \<le> int (length [1, 2, 3 :: byte])" by simp
  show ?thesis
    using v h o1 o2
      Load_short_read [where Valid = Valid_named and h = "\<lparr>Type = Data, Name = ''a''\<rparr>"
        and p = "[0, 0, 0, 0]", OF v h o1 o2]
    by simp
qed

subsection \<open>C7: the order and the snapshot of a listing\<close>

text \<open>
  Claim C7: for every category, the names of \<open>List\<close> are exactly the names of the blobs
  of that category in the store at the moment of the call, in strictly ascending
  lexicographic order (so no name of another category and no name twice); a consumer
  that receives them all gets that list; and a store operation (a finalize, a remove, a
  reset) run at any point after the call does not change what the consumer is delivered.
\<close>

theorem memList_sorted_snapshot:
  assumes wf: "wf_memMap (data be)"
  shows "set (memList be t) = {name. map_of (data be) (t, name) \<noteq> None}
       \<and> sorted_wrt (<) (memList be t)
       \<and> deliver (replicate (length (memList be t)) Recv) (be, memList be t) = memList be t
       \<and> deliver (evs1 @ Store op # evs2) (be, memList be t)
           = deliver (evs1 @ evs2) (be, memList be t)"
proof -
  have a: "set (memList be t) = {name. map_of (data be) (t, name) \<noteq> None}"
    by (rule set_memList)
  have b: "sorted_wrt (<) (memList be t)"
    using wf by (rule strict_sorted_memList)
  have c: "deliver (replicate (length (memList be t)) Recv) (be, memList be t) = memList be t"
    by (simp add: deliver_take received_all_Recv)
  have d: "deliver (evs1 @ Store op # evs2) (be, memList be t)
           = deliver (evs1 @ evs2) (be, memList be t)"
    by (simp add: deliver_take received_skip_Store)
  from a b c d show ?thesis by blast
qed

text \<open>
  A store with \<open>(Data, "b")\<close>, \<open>(Key, "k")\<close> and \<open>(Data, "a")\<close>, listed for \<open>Data\<close>,
  with a finalize and a remove between the receives.
\<close>

theorem memList_sorted_snapshot_witness:
  "wf_memMap (data \<lparr>data = [((Data, ''b''), [4, 5]), ((Key, ''k''), []), ((Data, ''a''), [1, 2, 3])]\<rparr>)
   \<and> memList \<lparr>data = [((Data, ''b''), [4, 5]), ((Key, ''k''), []), ((Data, ''a''), [1, 2, 3])]\<rparr> Data
       = [''a'', ''b'']
   \<and> sorted_wrt (<) [''a'', ''b'']
   \<and> deliver [Recv, Store (OpFinalize [] Data ''0''), Store (OpRemove Data ''b''), Recv, Recv]
        (\<lparr>data = [((Data, ''b''), [4, 5]), ((Key, ''k''), []), ((Data, ''a''), [1, 2, 3])]\<rparr>,
         [''a'', ''b''])
       = [''a'', ''b'']"
proof -
  let ?be = "\<lparr>data = [((Data, ''b''), [4, 5 :: byte]), ((Key, ''k''), []), ((Data, ''a''), [1, 2, 3])]\<rparr>"
  have w: "wf_memMap (data ?be)"
    by (simp add: wf_memMap_def)
  have l: "memList ?be Data = [''a'', ''b'']"
    by (simp add: memList_def)
  have d: "deliver [Recv, Recv, Recv] (?be, [''a'', ''b'']) = [''a'', ''b'']"
    by simp
  from memList_sorted_snapshot [OF w, of Data "[Recv]" "OpFinalize [] Data ''0''"
      "[Store (OpRemove Data ''b''), Recv, Recv]"]
    memList_sorted_snapshot [OF w, of Data "[Recv]" "OpRemove Data ''b''" "[Recv, Recv]"]
  show ?thesis
    using w l d by simp
qed

subsection \<open>C8: the reset\<close>

text \<open>
  Claim C8: for every store, \<open>DeleteAll\<close> returns no error, and in the store after it
  \<open>TestExists\<close> is false for every key and \<open>List\<close> has no name to deliver for any
  category, whatever the consumer does.
\<close>

theorem DeleteFn_resets:
  "fst (DeleteFn be) = None
   \<and> memTest (snd (DeleteFn be)) t name = (False, None)
   \<and> memList (snd (DeleteFn be)) t = []
   \<and> deliver evs (snd (DeleteFn be), memList (snd (DeleteFn be)) t) = []"
  by (simp add: DeleteFn_def memTest_def memList_def deliver_take)

text \<open>A store holding \<open>(Data, "a")\<close>, reset.\<close>

theorem DeleteFn_resets_witness:
  "fst (DeleteFn \<lparr>data = [((Data, ''a''), [1, 2, 3])]\<rparr>) = None
   \<and> memTest (snd (DeleteFn \<lparr>data = [((Data, ''a''), [1, 2, 3])]\<rparr>)) Data ''a'' = (False, None)
   \<and> memList (snd (DeleteFn \<lparr>data = [((Data, ''a''), [1, 2, 3])]\<rparr>)) Data = []"
  using DeleteFn_resets [of "\<lparr>data = [((Data, ''a''), [1, 2, 3])]\<rparr>" Data "''a''" "[]"]
  by simp

subsection \<open>C9: a failed operation and the blob map\<close>

text \<open>
  Claim C9, as the code has it: for every operation (insert, finalize, get a reader, load,
  stat, remove), every validation and every store, if the call returns an error, the blob
  map after the call (each key with the bytes of its blob) is the blob map before it;
  for a load that returns \<open>UnexpectedShort\<close>, which has copied bytes into its
  destination, this holds provided the destination has no byte in common with a stored
  blob.
\<close>

theorem failed_request_keeps_contents:
  assumes failed: "returned_error (fst (perform Valid req st)) = Some err"
    and un: "err = UnexpectedShort \<Longrightarrow> unshared st req"
  shows "contents (snd (perform Valid req st)) = contents st"
proof (cases req)
  case (ReqInsert t name d)
  with failed show ?thesis by (simp add: insert_slice_failed)
next
  case (ReqFinalize bytes t name)
  with failed show ?thesis by (simp add: Finalize_slice_def insert_slice_failed)
next
  case (ReqGetReader t name offset len)
  then show ?thesis by simp
next
  case (ReqLoad h p off)
  with failed un Load_slice_failed [of Valid st h p off err] show ?thesis by simp
next
  case (ReqStat h)
  then show ?thesis by simp
next
  case (ReqRemove t name)
  with failed show ?thesis by (simp add: Remove_slice_failed)
qed

text \<open>
  The claim as it was stated has no proviso. \<^verbatim>\<open>insert\<close> keeps the slice it is given
  and \<^verbatim>\<open>memLoad\<close> copies before it reports the short read: with the array
  \<open>[1, 2, 3]\<close> inserted as \<open>(Data, "a")\<close> and then given as the destination of a load
  of that blob from offset 1, the load returns \<open>UnexpectedShort\<close> and the blob stored
  under \<open>(Data, "a")\<close> is \<open>[2, 3, 3]\<close>.
\<close>

theorem Load_into_stored_slice_changes_blob:
  "fst (perform Valid_named (ReqInsert Data ''a'' \<lparr>arr = 0, pos = 0, cnt = 3\<rparr>)
      \<lparr>mem = empty_memory(0 := [1, 2, 3]), slices = []\<rparr>) = Status None
   \<and> snd (perform Valid_named (ReqInsert Data ''a'' \<lparr>arr = 0, pos = 0, cnt = 3\<rparr>)
      \<lparr>mem = empty_memory(0 := [1, 2, 3]), slices = []\<rparr>)
     = \<lparr>mem = empty_memory(0 := [1, 2, 3]),
        slices = [((Data, ''a''), \<lparr>arr = 0, pos = 0, cnt = 3\<rparr>)]\<rparr>
   \<and> contents \<lparr>mem = empty_memory(0 := [1, 2, 3]),
        slices = [((Data, ''a''), \<lparr>arr = 0, pos = 0, cnt = 3\<rparr>)]\<rparr>
     = \<lparr>data = [((Data, ''a''), [1, 2, 3])]\<rparr>
   \<and> fst (perform Valid_named
        (ReqLoad \<lparr>Type = Data, Name = ''a''\<rparr> \<lparr>arr = 0, pos = 0, cnt = 3\<rparr> 1)
        \<lparr>mem = empty_memory(0 := [1, 2, 3]),
         slices = [((Data, ''a''), \<lparr>arr = 0, pos = 0, cnt = 3\<rparr>)]\<rparr>)
     = Loaded (Inr (2, Some UnexpectedShort))
   \<and> contents (snd (perform Valid_named
        (ReqLoad \<lparr>Type = Data, Name = ''a''\<rparr> \<lparr>arr = 0, pos = 0, cnt = 3\<rparr> 1)
        \<lparr>mem = empty_memory(0 := [1, 2, 3]),
         slices = [((Data, ''a''), \<lparr>arr = 0, pos = 0, cnt = 3\<rparr>)]\<rparr>))
     = \<lparr>data = [((Data, ''a''), [2, 3, 3])]\<rparr>"
  by (simp add: insert_slice_def Load_slice_def memLoad_def Valid_named_def contents_def
      read_slice_def write_slice_def empty_memory_def)

text \<open>
  The same load into a destination of four bytes in an array of its own: it comes up
  short, the destination holds \<open>[2, 3, 0, 0]\<close>, the blob map is as before. And a
  finalize onto a key that is present.
\<close>

theorem failed_request_keeps_contents_witness:
  "returned_error (fst (perform Valid_named
      (ReqLoad \<lparr>Type = Data, Name = ''a''\<rparr> \<lparr>arr = 1, pos = 0, cnt = 4\<rparr> 1)
      \<lparr>mem = empty_memory(0 := [1, 2, 3], 1 := [0, 0, 0, 0]),
       slices = [((Data, ''a''), \<lparr>arr = 0, pos = 0, cnt = 3\<rparr>)]\<rparr>)) = Some UnexpectedShort
   \<and> unshared \<lparr>mem = empty_memory(0 := [1, 2, 3], 1 := [0, 0, 0, 0]),
       slices = [((Data, ''a''), \<lparr>arr = 0, pos = 0, cnt = 3\<rparr>)]\<rparr>
       (ReqLoad \<lparr>Type = Data, Name = ''a''\<rparr> \<lparr>arr = 1, pos = 0, cnt = 4\<rparr> 1)
   \<and> read_slice (mem (snd (perform Valid_named
      (ReqLoad \<lparr>Type = Data, Name = ''a''\<rparr> \<lparr>arr = 1, pos = 0, cnt = 4\<rparr> 1)
      \<lparr>mem = empty_memory(0 := [1, 2, 3], 1 := [0, 0, 0, 0]),
       slices = [((Data, ''a''), \<lparr>arr = 0, pos = 0, cnt = 3\<rparr>)]\<rparr>)))
      \<lparr>arr = 1, pos = 0, cnt = 4\<rparr> = [2, 3, 0, 0]
   \<and> contents (snd (perform Valid_named
      (ReqLoad \<lparr>Type = Data, Name = ''a''\<rparr> \<lparr>arr = 1, pos = 0, cnt = 4\<rparr> 1)
      \<lparr>mem = empty_memory(0 := [1, 2, 3], 1 := [0, 0, 0, 0]),
       slices = [((Data, ''a''), \<lparr>arr = 0, pos = 0, cnt = 3\<rparr>)]\<rparr>))
     = \<lparr>data = [((Data, ''a''), [1, 2, 3])]\<rparr>
   \<and> returned_error (fst (perform Valid_named
      (ReqFinalize \<lparr>arr = 1, pos = 0, cnt = 4\<rparr> Data ''a'')
      \<lparr>mem = empty_memory(0 := [1, 2, 3], 1 := [0, 0, 0, 0]),
       slices = [((Data, ''a''), \<lparr>arr = 0, pos = 0, cnt = 3\<rparr>)]\<rparr>)) = Some AlreadyExists
   \<and> contents (snd (perform Valid_named
      (ReqFinalize \<lparr>arr = 1, pos = 0, cnt = 4\<rparr> Data ''a'')
      \<lparr>mem = empty_memory(0 := [1, 2, 3], 1 := [0, 0, 0, 0]),
       slices = [((Data, ''a''), \<lparr>arr = 0, pos = 0, cnt = 3\<rparr>)]\<rparr>))
     = \<lparr>data = [((Data, ''a''), [1, 2, 3])]\<rparr>"
proof -
  let ?st = "\<lparr>mem = empty_memory(0 := [1, 2, 3], 1 := [0, 0, 0, 0]),
       slices = [((Data, ''a''), \<lparr>arr = 0, pos = 0, cnt = 3\<rparr>)]\<rparr>"
  let ?load = "ReqLoad \<lparr>Type = Data, Name = ''a''\<rparr> \<lparr>arr = 1, pos = 0, cnt = 4\<rparr> 1"
  let ?fin = "ReqFinalize \<lparr>arr = 1, pos = 0, cnt = 4\<rparr> Data ''a''"
  have f1: "returned_error (fst (perform Valid_named ?load ?st)) = Some UnexpectedShort"
    by (simp add: Load_slice_def memLoad_def Valid_named_def contents_def read_slice_def
        empty_memory_def)
  have u1: "unshared ?st ?load"
    by (simp add: apart_def)
  have d1: "read_slice (mem (snd (perform Valid_named ?load ?st)))
      \<lparr>arr = 1, pos = 0, cnt = 4\<rparr> = [2, 3, 0, 0]"
    by (simp add: Load_slice_def memLoad_def Valid_named_def contents_def read_slice_def
        write_slice_def empty_memory_def)
  have c: "contents ?st = \<lparr>data = [((Data, ''a''), [1, 2, 3])]\<rparr>"
    by (simp add: contents_def read_slice_def empty_memory_def)
  have f2: "returned_error (fst (perform Valid_named ?fin ?st)) = Some AlreadyExists"
    by (simp add: Finalize_slice_def insert_slice_def)
  from failed_request_keeps_contents [OF f1] failed_request_keeps_contents [OF f2] u1
  have "contents (snd (perform Valid_named ?load ?st)) = contents ?st"
    and "contents (snd (perform Valid_named ?fin ?st)) = contents ?st"
    by simp_all
  with f1 u1 d1 c f2 show ?thesis
    by simp
qed

subsection \<open>C10: an absent key before the offset\<close>

text \<open>
  Claim C10, as the code has it: for every category and name whose slot (the key with the
  name of the config category rewritten to the empty name) is absent from the map, every
  offset and every length or destination, \<open>GetReader\<close> returns \<open>NotFound\<close>, and so
  does \<open>Load\<close> for a handle that passes validation: the slot is looked up before the
  offset is checked, so the error is never \<open>OffsetOutOfRange\<close>.
\<close>

theorem absent_key_reads_NotFound:
  assumes absent: "map_of (data be) (slot t name) = None"
  shows "memGetReader be t name offset len = Inl NotFound
       \<and> (Valid \<lparr>Type = t, Name = name\<rparr> = None \<longrightarrow>
            memLoad Valid be \<lparr>Type = t, Name = name\<rparr> p off = Inr (p, 0, Some NotFound))"
  using absent by (simp add: memGetReader_absent memLoad_absent)

text \<open>
  The claim as it was stated speaks of every absent key. With a config blob of three
  bytes stored, the key \<open>(Config, "x")\<close> is absent from the map and \<open>memTest\<close> says so,
  yet \<open>memGetReader\<close> and \<open>memLoad\<close> reach the config slot for it and at offset 100
  return \<open>OffsetOutOfRange\<close>; and for the absent key \<open>(Data, "")\<close>, under a validation
  that wants a name, \<open>memLoad\<close> returns the error of the validation, not \<open>NotFound\<close>.
\<close>

theorem absent_key_reads_other_errors:
  "map_of (data (snd (save_blob New [1, 2, 3] Config []))) (Config, ''x'') = None
   \<and> memTest (snd (save_blob New [1, 2, 3] Config [])) Config ''x'' = (False, None)
   \<and> memGetReader (snd (save_blob New [1, 2, 3] Config [])) Config ''x'' 100 0
       = Inl OffsetOutOfRange
   \<and> memLoad Valid_named (snd (save_blob New [1, 2, 3] Config []))
        \<lparr>Type = Config, Name = ''x''\<rparr> [0] 100 = Inr ([0], 0, Some OffsetOutOfRange)
   \<and> map_of (data (snd (save_blob New [1, 2, 3] Config []))) (Data, []) = None
   \<and> memLoad Valid_named (snd (save_blob New [1, 2, 3] Config []))
        \<lparr>Type = Data, Name = []\<rparr> [0] 100 = Inr ([0], 0, Some InvalidHandle)"
  by (simp add: save_blob_def Finalize_def insert_mem_def Write_def memCreate_def New_def
      memTest_def memGetReader_def memLoad_def Valid_named_def)

text \<open>The key \<open>(Data, "b")\<close>, absent from the store, read at offset 100.\<close>

theorem absent_key_reads_NotFound_witness:
  "map_of (data \<lparr>data = [((Data, ''a''), [1, 2, 3])]\<rparr>) (slot Data ''b'') = None
   \<and> memGetReader \<lparr>data = [((Data, ''a''), [1, 2, 3])]\<rparr> Data ''b'' 100 0 = Inl NotFound
   \<and> Valid_named \<lparr>Type = Data, Name = ''b''\<rparr> = None
   \<and> memLoad Valid_named \<lparr>data = [((Data, ''a''), [1, 2, 3])]\<rparr> \<lparr>Type = Data, Name = ''b''\<rparr>
        [0] 100 = Inr ([0], 0, Some NotFound)"
proof -
  have h: "map_of (data \<lparr>data = [((Data, ''a''), [1, 2, 3 :: byte])]\<rparr>) (slot Data ''b'') = None"
    by (simp add: slot_def)
  have v: "Valid_named \<lparr>Type = Data, Name = ''b''\<rparr> = None"
    by (simp add: Valid_named_def)
  show ?thesis
    using h v absent_key_reads_NotFound [OF h, of 100 0 Valid_named "[0]" 100]
    by simp
qed

end
